theory Spec2Isabelle
  imports Complex_Main "HOL-Library.AList"
begin

section \<open>Split Bill Buddy: the bill session, the allocator and the reconciliation\<close>

text \<open>
  A shallow embedding of \<^verbatim>\<open>split_bill_bot.py\<close>. Python's \<^verbatim>\<open>float\<close> amounts are
  modelled as exact real numbers: the arithmetic of the source is kept operation by
  operation, its binary rounding is not modelled (and neither are \<^verbatim>\<open>nan\<close> and
  \<^verbatim>\<open>inf\<close>). Python's \<^verbatim>\<open>int\<close> is \<open>int\<close>. A \<^verbatim>\<open>dict\<close> whose iteration order
  matters (\<^verbatim>\<open>session["people"]\<close>) is an association list with distinct keys, kept in
  insertion order; the registry \<^verbatim>\<open>SESSIONS\<close> is a map from chat ids to sessions and is
  passed explicitly. Sending a message is modelled by its only effect on the state: the
  id of the message sent, which the transport returns, is a parameter of the handler.
\<close>

subsection \<open>Helpers\<close>

text \<open>\<^verbatim>\<open>close_enough(a, b, tol=0.01)\<close>: \<^verbatim>\<open>abs(a - b) <= tol\<close>.\<close>

definition close_enough_tol :: "real \<Rightarrow> real \<Rightarrow> real \<Rightarrow> bool" where
  "close_enough_tol a b tol = (\<bar>a - b\<bar> \<le> tol)"

definition close_enough :: "real \<Rightarrow> real \<Rightarrow> bool" where
  "close_enough a b = close_enough_tol a b (1 / 100)"

text \<open>
  Python's built-in \<^verbatim>\<open>round(x)\<close> with one argument: the nearest integer, a tie going
  to the even neighbour.
\<close>

definition py_round :: "real \<Rightarrow> int" where
  "py_round x =
     (let f = \<lfloor>x\<rfloor>; r = x - of_int f
      in if r < 1 / 2 then f
         else if 1 / 2 < r then f + 1
         else if even f then f else f + 1)"

subsection \<open>The money allocator\<close>

text \<open>
  The loop of \<^verbatim>\<open>allocate_cents\<close>:
  \<^verbatim>\<open>while diff > 0 and idx < len(cents): cents[idx] += 1; diff -= 1; idx += 1\<close>.
\<close>

function add_cents :: "int list \<Rightarrow> int \<Rightarrow> nat \<Rightarrow> int list" where
  "add_cents cents diff idx =
     (if 0 < diff \<and> idx < length cents
      then add_cents (cents[idx := cents ! idx + 1]) (diff - 1) (idx + 1)
      else cents)"
  by pat_completeness auto
termination
  by (relation "measure (\<lambda>(cents, diff, idx). length cents - idx)") auto

declare add_cents.simps [simp del]

text \<open>\<^verbatim>\<open>cents = [int(math.floor(x * 100.0)) for x in shares]\<close>\<close>

definition floor_cents :: "real list \<Rightarrow> int list" where
  "floor_cents shares = map (\<lambda>x. \<lfloor>x * 100\<rfloor>) shares"

text \<open>\<^verbatim>\<open>diff = int(round(grand_total * 100)) - sum(cents)\<close>\<close>

definition remainder_cents :: "real list \<Rightarrow> real \<Rightarrow> int" where
  "remainder_cents shares grand_total =
     py_round (grand_total * 100) - sum_list (floor_cents shares)"

text \<open>The list \<^verbatim>\<open>cents\<close> when the loop has ended.\<close>

definition allocated_cents :: "real list \<Rightarrow> real \<Rightarrow> int list" where
  "allocated_cents shares grand_total =
     add_cents (floor_cents shares) (remainder_cents shares grand_total) 0"

text \<open>\<^verbatim>\<open>return [c / 100.0 for c in cents]\<close>\<close>

definition allocate_cents :: "real list \<Rightarrow> real \<Rightarrow> real list" where
  "allocate_cents shares grand_total =
     map (\<lambda>c. real_of_int c / 100) (allocated_cents shares grand_total)"

text \<open>An amount read back in integer cents.\<close>

definition to_cents :: "real \<Rightarrow> int" where
  "to_cents a = py_round (a * 100)"

subsection \<open>Sessions\<close>

text \<open>
  The session dictionary of \<^verbatim>\<open>get_session\<close>, one per chat. \<^verbatim>\<open>people\<close> maps a name
  to a subtotal and keeps insertion order; \<^verbatim>\<open>messages\<close> are the ids of the bot's
  tracked messages.
\<close>

record session =
  currency :: string
  total :: real
  gst :: real
  service :: real
  num_people :: int
  people :: "(string \<times> real) list"
  messages :: "int list"
  finalized_msg_id :: "int option"

type_synonym sessions = "int \<rightharpoonup> session"

text \<open>Conversation states; \<open>END\<close> is \<^verbatim>\<open>ConversationHandler.END\<close>.\<close>

datatype conv_state = MENU | CURRENCY | TOTAL | GST | SERVICE | NUM_PEOPLE | END

datatype py_error = ZeroDivisionError

text \<open>What a handler tells the user; the wording of the message is left out.\<close>

datatype reply =
    NoActiveBill
  | Usage
  | InvalidAmount
  | NotInList string
  | NotFound string
  | Added string real real
  | Updated string real
  | Removed string
  | TotalUpdated real
  | NoPeopleYet
  | EqualBreakdown real real real real real
  | Mismatch real real real string
  | CustomBreakdown real real real real "(string \<times> real) list"
  | CannotScale
  | Scaled
  | EditHint
  | TotalToSum real
  | NoReply
  | Raised py_error

text \<open>The dictionary a chat gets when it has none.\<close>

definition fresh_session :: session where
  "fresh_session =
     \<lparr>currency = ''SGD'', total = 0, gst = 0, service = 0, num_people = 0,
      people = [], messages = [], finalized_msg_id = None\<rparr>"

text \<open>
  \<^verbatim>\<open>get_session(chat_id)\<close> creates the session when the chat has none; it returns the
  store and the session found there.
\<close>

definition get_session :: "sessions \<Rightarrow> int \<Rightarrow> sessions \<times> session" where
  "get_session S chat_id =
     (case S chat_id of
        None \<Rightarrow> (S(chat_id \<mapsto> fresh_session), fresh_session)
      | Some s \<Rightarrow> (S, s))"

text \<open>
  \<^verbatim>\<open>send_and_track\<close>: the message is sent and its id \<open>mid\<close> is appended to the
  session's \<^verbatim>\<open>messages\<close>.
\<close>

definition send_and_track :: "sessions \<Rightarrow> int \<Rightarrow> int \<Rightarrow> sessions" where
  "send_and_track S chat_id mid =
     (case get_session S chat_id of
        (S1, s) \<Rightarrow> S1(chat_id \<mapsto> s\<lparr>messages := messages s @ [mid]\<rparr>))"

text \<open>
  \<^verbatim>\<open>delete_setup_messages\<close>: the deletions are attempts on the transport; the session
  keeps the tracked ids that are in \<^verbatim>\<open>keep_ids\<close>.
\<close>

definition delete_setup_messages :: "sessions \<Rightarrow> int \<Rightarrow> int list \<Rightarrow> sessions" where
  "delete_setup_messages S chat_id keep_ids =
     (case get_session S chat_id of
        (S1, s) \<Rightarrow> S1(chat_id \<mapsto> s\<lparr>messages := filter (\<lambda>m. m \<in> set keep_ids) (messages s)\<rparr>))"

text \<open>Python's \<^verbatim>\<open>a / b\<close> on numbers raises when \<^verbatim>\<open>b\<close> is zero.\<close>

definition truediv :: "real \<Rightarrow> real \<Rightarrow> py_error + real" where
  "truediv a b = (if b = 0 then Inl ZeroDivisionError else Inr (a / b))"

text \<open>\<^verbatim>\<open>start\<close>: the chat's session is dropped and created anew; the menu is sent.\<close>

definition start :: "sessions \<Rightarrow> int \<Rightarrow> int \<Rightarrow> sessions \<times> conv_state" where
  "start S chat_id mid =
     (let S1 = S(chat_id := None);
          S2 = fst (get_session S1 chat_id)
      in (send_and_track S2 chat_id mid, MENU))"

subsection \<open>The setup dialogue\<close>

text \<open>
  The handlers of the states \<open>TOTAL\<close>, \<open>GST\<close>, \<open>SERVICE\<close> and \<open>NUM_PEOPLE\<close>.
  \<open>float_of\<close> and \<open>int_of\<close> stand for Python's \<^verbatim>\<open>float(...)\<close> and \<^verbatim>\<open>int(...)\<close> on a
  string: \<open>None\<close> is their \<^verbatim>\<open>ValueError\<close>. The first three store the parsed number in
  the session before they test its sign, as the source does.
\<close>

definition set_total ::
  "(string \<Rightarrow> real option) \<Rightarrow> sessions \<Rightarrow> int \<Rightarrow> string \<Rightarrow> int \<Rightarrow> sessions \<times> conv_state" where
  "set_total float_of S chat_id text mid =
     (case get_session S chat_id of
        (S1, s) \<Rightarrow>
          (case float_of text of
             None \<Rightarrow> (send_and_track S1 chat_id mid, TOTAL)
           | Some v \<Rightarrow>
               (let S2 = S1(chat_id \<mapsto> s\<lparr>total := v\<rparr>)
                in if v < 0 then (send_and_track S2 chat_id mid, TOTAL)
                   else (send_and_track S2 chat_id mid, GST))))"

definition set_gst ::
  "(string \<Rightarrow> real option) \<Rightarrow> sessions \<Rightarrow> int \<Rightarrow> string \<Rightarrow> int \<Rightarrow> sessions \<times> conv_state" where
  "set_gst float_of S chat_id text mid =
     (case get_session S chat_id of
        (S1, s) \<Rightarrow>
          (case float_of text of
             None \<Rightarrow> (send_and_track S1 chat_id mid, GST)
           | Some v \<Rightarrow>
               (let S2 = S1(chat_id \<mapsto> s\<lparr>gst := v\<rparr>)
                in if v < 0 then (send_and_track S2 chat_id mid, GST)
                   else (send_and_track S2 chat_id mid, SERVICE))))"

definition set_service ::
  "(string \<Rightarrow> real option) \<Rightarrow> sessions \<Rightarrow> int \<Rightarrow> string \<Rightarrow> int \<Rightarrow> sessions \<times> conv_state" where
  "set_service float_of S chat_id text mid =
     (case get_session S chat_id of
        (S1, s) \<Rightarrow>
          (case float_of text of
             None \<Rightarrow> (send_and_track S1 chat_id mid, SERVICE)
           | Some v \<Rightarrow>
               (let S2 = S1(chat_id \<mapsto> s\<lparr>service := v\<rparr>)
                in if v < 0 then (send_and_track S2 chat_id mid, SERVICE)
                   else (send_and_track S2 chat_id mid, NUM_PEOPLE))))"

definition set_num_people ::
  "(string \<Rightarrow> int option) \<Rightarrow> sessions \<Rightarrow> int \<Rightarrow> string \<Rightarrow> int \<Rightarrow> sessions \<times> conv_state" where
  "set_num_people int_of S chat_id text mid =
     (case get_session S chat_id of
        (S1, s) \<Rightarrow>
          (case int_of text of
             None \<Rightarrow> (send_and_track S1 chat_id mid, NUM_PEOPLE)
           | Some n \<Rightarrow>
               if n \<le> 0 then (send_and_track S1 chat_id mid, NUM_PEOPLE)
               else (send_and_track (S1(chat_id \<mapsto> s\<lparr>num_people := n\<rparr>)) chat_id mid, END)))"

subsection \<open>The commands\<close>

text \<open>
  The commands look the session up with \<^verbatim>\<open>SESSIONS.get\<close> and answer
  \<open>NoActiveBill\<close>, untracked, when there is none. \<open>args\<close> is \<^verbatim>\<open>context.args\<close>.
\<close>

definition addamount ::
  "(string \<Rightarrow> real option) \<Rightarrow> sessions \<Rightarrow> int \<Rightarrow> string list \<Rightarrow> int \<Rightarrow> sessions \<times> reply" where
  "addamount float_of S chat_id args mid =
     (case S chat_id of
        None \<Rightarrow> (S, NoActiveBill)
      | Some s \<Rightarrow>
          if length args < 2 then (send_and_track S chat_id mid, Usage)
          else
            (let name = args ! 0
             in case float_of (args ! 1) of
                  None \<Rightarrow> (send_and_track S chat_id mid, InvalidAmount)
                | Some amount \<Rightarrow>
                    if amount < 0 then (send_and_track S chat_id mid, InvalidAmount)
                    else
                      (let prev = (case map_of (people s) name of None \<Rightarrow> 0 | Some v \<Rightarrow> v);
                           S1 = S(chat_id \<mapsto>
                                  s\<lparr>people := AList.update name (prev + amount) (people s)\<rparr>)
                       in (send_and_track S1 chat_id mid, Added name amount (prev + amount)))))"

definition editamount ::
  "(string \<Rightarrow> real option) \<Rightarrow> sessions \<Rightarrow> int \<Rightarrow> string list \<Rightarrow> int \<Rightarrow> sessions \<times> reply" where
  "editamount float_of S chat_id args mid =
     (case S chat_id of
        None \<Rightarrow> (S, NoActiveBill)
      | Some s \<Rightarrow>
          if length args < 2 then (send_and_track S chat_id mid, Usage)
          else
            (let name = args ! 0
             in case float_of (args ! 1) of
                  None \<Rightarrow> (send_and_track S chat_id mid, InvalidAmount)
                | Some amount \<Rightarrow>
                    if amount < 0 then (send_and_track S chat_id mid, InvalidAmount)
                    else if map_of (people s) name = None
                    then (send_and_track S chat_id mid, NotInList name)
                    else
                      (let S1 = S(chat_id \<mapsto>
                                  s\<lparr>people := AList.update name amount (people s)\<rparr>)
                       in (send_and_track S1 chat_id mid, Updated name amount))))"

definition remove_person :: "sessions \<Rightarrow> int \<Rightarrow> string list \<Rightarrow> int \<Rightarrow> sessions \<times> reply" where
  "remove_person S chat_id args mid =
     (case S chat_id of
        None \<Rightarrow> (S, NoActiveBill)
      | Some s \<Rightarrow>
          if length args < 1 then (send_and_track S chat_id mid, Usage)
          else
            (let name = args ! 0
             in if map_of (people s) name \<noteq> None
                then (send_and_track
                        (S(chat_id \<mapsto> s\<lparr>people := AList.delete name (people s)\<rparr>)) chat_id mid,
                      Removed name)
                else (send_and_track S chat_id mid, NotFound name)))"

definition settotal ::
  "(string \<Rightarrow> real option) \<Rightarrow> sessions \<Rightarrow> int \<Rightarrow> string list \<Rightarrow> int \<Rightarrow> sessions \<times> reply" where
  "settotal float_of S chat_id args mid =
     (case S chat_id of
        None \<Rightarrow> (S, NoActiveBill)
      | Some s \<Rightarrow>
          if length args < 1 then (send_and_track S chat_id mid, Usage)
          else
            (case float_of (args ! 0) of
               None \<Rightarrow> (send_and_track S chat_id mid, InvalidAmount)
             | Some amt \<Rightarrow>
                 if amt < 0 then (send_and_track S chat_id mid, InvalidAmount)
                 else (send_and_track (S(chat_id \<mapsto> s\<lparr>total := amt\<rparr>)) chat_id mid,
                       TotalUpdated amt)))"

subsection \<open>The final calculation\<close>

text \<open>
  The loop that builds \<^verbatim>\<open>raw\<close>: each entry's subtotal plus its part of the tax and
  service, \<open>extra\<close> being \<^verbatim>\<open>gst_amt + svc_amt\<close>.
\<close>

fun raw_shares :: "real \<Rightarrow> real \<Rightarrow> (string \<times> real) list \<Rightarrow> py_error + real list" where
  "raw_shares total_before extra [] = Inr []"
| "raw_shares total_before extra ((n, sub) # items) =
     (case (if 0 < total_before
            then (case truediv sub total_before of
                    Inl e \<Rightarrow> Inl e
                  | Inr q \<Rightarrow> Inr (q * extra))
            else Inr 0) of
        Inl e \<Rightarrow> Inl e
      | Inr tax_part \<Rightarrow>
          (case raw_shares total_before extra items of
             Inl e \<Rightarrow> Inl e
           | Inr raw \<Rightarrow> Inr ((sub + tax_part) # raw)))"

text \<open>
  \<^verbatim>\<open>calculate\<close>. With no entries it splits equally by \<^verbatim>\<open>num_people\<close>; with entries
  it first compares their sum with the total. \<open>mid\<close> is the id of the one message
  the call sends. An exception leaves the handler before anything is stored.
\<close>

definition calculate :: "sessions \<Rightarrow> int \<Rightarrow> int \<Rightarrow> sessions \<times> reply" where
  "calculate S chat_id mid =
     (case S chat_id of
        None \<Rightarrow> (S, NoActiveBill)
      | Some s \<Rightarrow>
          (let total_before = total s; gst_pct = gst s; svc_pct = service s
           in if people s = [] then
                if num_people s \<le> 0 then (send_and_track S chat_id mid, NoPeopleYet)
                else
                  (let gst_amt = total_before * (gst_pct / 100);
                       svc_amt = total_before * (svc_pct / 100);
                       grand = total_before + gst_amt + svc_amt
                   in case truediv grand (of_int (num_people s)) of
                        Inl e \<Rightarrow> (S, Raised e)
                      | Inr per \<Rightarrow>
                          (delete_setup_messages
                             (S(chat_id \<mapsto> s\<lparr>finalized_msg_id := Some mid\<rparr>)) chat_id [mid],
                           EqualBreakdown total_before gst_amt svc_amt grand per))
              else
                (let people_items = people s;
                     sum_custom = sum_list (map snd people_items)
                 in if \<not> close_enough sum_custom total_before then
                      (let diff = total_before - sum_custom;
                           sign = (if 0 < diff then ''more'' else ''less'')
                       in (send_and_track S chat_id mid,
                           Mismatch total_before sum_custom diff sign))
                    else
                      (let gst_amt = total_before * (gst_pct / 100);
                           svc_amt = total_before * (svc_pct / 100);
                           grand = total_before + gst_amt + svc_amt
                       in case raw_shares total_before (gst_amt + svc_amt) people_items of
                            Inl e \<Rightarrow> (S, Raised e)
                          | Inr raw \<Rightarrow>
                              (let final_shares = allocate_cents raw grand
                               in (delete_setup_messages
                                     (S(chat_id \<mapsto> s\<lparr>finalized_msg_id := Some mid\<rparr>))
                                     chat_id [mid],
                                   CustomBreakdown total_before gst_amt svc_amt grand
                                     (zip (map fst people_items) final_shares)))))))"

subsection \<open>Resolving a mismatch\<close>

text \<open>
  The loop of \<^verbatim>\<open>SCALE_FIX\<close>:
  \<^verbatim>\<open>for n, a in people_items: session["people"][n] = a * factor\<close>.
\<close>

fun scale_entries ::
  "real \<Rightarrow> (string \<times> real) list \<Rightarrow> (string \<times> real) list \<Rightarrow> (string \<times> real) list" where
  "scale_entries factor [] ps = ps"
| "scale_entries factor ((n, a) # items) ps =
     scale_entries factor items (AList.update n (a * factor) ps)"

text \<open>
  \<^verbatim>\<open>mismatch_fix_cb\<close>; \<open>data\<close> is \<^verbatim>\<open>query.data\<close>. Its replies are not tracked.
\<close>

definition mismatch_fix_cb :: "sessions \<Rightarrow> int \<Rightarrow> string \<Rightarrow> sessions \<times> reply" where
  "mismatch_fix_cb S chat_id data =
     (case get_session S chat_id of
        (S1, s) \<Rightarrow>
          (let people_items = people s;
               sum_custom = sum_list (map snd people_items);
               total_before = total s
           in if data = ''SCALE_FIX'' then
                if sum_custom \<le> 0 then (S1, CannotScale)
                else
                  (case truediv total_before sum_custom of
                     Inl e \<Rightarrow> (S1, Raised e)
                   | Inr factor \<Rightarrow>
                       (S1(chat_id \<mapsto>
                            s\<lparr>people := scale_entries factor people_items (people s)\<rparr>),
                        Scaled))
              else if data = ''EDIT_FIX'' then (S1, EditHint)
              else if data = ''TOTAL_TO_SUM'' then
                (S1(chat_id \<mapsto> s\<lparr>total := sum_custom\<rparr>), TotalToSum sum_custom)
              else (S1, NoReply)))"

section \<open>Properties of the allocator\<close>

lemma py_round_of_int: "py_round (of_int c) = c"
  by (simp add: py_round_def)

lemma to_cents_of_cents: "to_cents (real_of_int c / 100) = c"
  by (simp add: to_cents_def py_round_of_int)

lemma length_add_cents: "length (add_cents cents diff idx) = length cents"
proof (induction cents diff idx rule: add_cents.induct)
  case (1 cents diff idx)
  show ?case
  proof (cases "0 < diff \<and> idx < length cents")
    case True
    with "1" show ?thesis
      by (subst add_cents.simps) simp
  next
    case False
    then show ?thesis
      by (subst add_cents.simps) auto
  qed
qed


lemma sum_list_bump:
  "k < length xs \<Longrightarrow> sum_list (xs[k := xs ! k + 1]) = sum_list xs + (1::int)"
proof (induction xs arbitrary: k)
  case Nil
  then show ?case by simp
next
  case (Cons x xs)
  then show ?case by (cases k) simp_all
qed

lemma sum_list_add_cents:
  "sum_list (add_cents cents diff idx) =
     sum_list cents + max 0 (min diff (int (length cents) - int idx))"
proof (induction cents diff idx rule: add_cents.induct)
  case (1 cents diff idx)
  show ?case
  proof (cases "0 < diff \<and> idx < length cents")
    case True
    have step: "add_cents cents diff idx =
        add_cents (cents[idx := cents ! idx + 1]) (diff - 1) (idx + 1)"
      using True by (subst add_cents.simps) simp
    have upd: "sum_list (cents[idx := cents ! idx + 1]) = sum_list cents + 1"
      using True by (simp add: sum_list_bump)
    show ?thesis
      unfolding step using "1.IH" [OF True] True upd by auto
  next
    case False
    have "add_cents cents diff idx = cents"
      using False by (subst add_cents.simps) auto
    with False show ?thesis
      by auto
  qed
qed


lemma length_allocate_cents: "length (allocate_cents shares g) = length shares"
  by (simp add: allocate_cents_def allocated_cents_def length_add_cents floor_cents_def)

lemma map_to_cents_allocate_cents:
  "map to_cents (allocate_cents shares g) = allocated_cents shares g"
  by (simp add: allocate_cents_def to_cents_of_cents comp_def)

text \<open>
  What the allocator does reach: when the remainder is between zero and the number of
  shares, the cents of the output sum to the rounded grand total.
\<close>

lemma allocate_cents_exact_when_remainder_fits:
  assumes "0 \<le> remainder_cents shares g"
    and "remainder_cents shares g \<le> int (length shares)"
  shows "sum_list (map to_cents (allocate_cents shares g)) = py_round (g * 100)"
proof -
  have "sum_list (allocated_cents shares g) =
      sum_list (floor_cents shares) + remainder_cents shares g"
    using assms
    by (simp add: allocated_cents_def sum_list_add_cents floor_cents_def)
  then show ?thesis
    by (simp add: map_to_cents_allocate_cents remainder_cents_def)
qed

text \<open>
  C1. The claim: for every non-empty list of non-negative shares and every non-negative
  grand total, the cents of the allocator's output sum to \<open>round(grand_total * 100)\<close>.
  The code does not reach it when the remainder exceeds the number of shares or is
  negative: the loop gives at most one cent to each share and never takes one away.
  With the one share \<open>0.0\<close> and the grand total \<open>1.0\<close> the output is \<open>[0.01]\<close>, one
  cent where a hundred are due; with the share \<open>1.0\<close> and the grand total \<open>0.0\<close> it
  is \<open>[1.0]\<close>, a hundred cents where none is due.
\<close>

theorem allocate_cents_misses_grand_total:
  "allocate_cents [0] 1 = [1 / 100]
   \<and> sum_list (map to_cents (allocate_cents [0] 1)) = 1
   \<and> py_round (1 * 100) = 100
   \<and> allocate_cents [1] 0 = [1]
   \<and> sum_list (map to_cents (allocate_cents [1] 0)) = 100
   \<and> py_round (0 * 100) = 0"
  by code_simp


text \<open>The example of the specification: no remainder, the shares come back as they are.\<close>

lemma allocate_cents_example:
  "allocate_cents [714 / 10, 476 / 10] 119 = [714 / 10, 476 / 10]"
  by code_simp

text \<open>Three thirds of one unit: the one remaining cent goes to the first entry.\<close>

lemma allocate_cents_thirds:
  "allocate_cents [1 / 3, 1 / 3, 1 / 3] 1 = [34 / 100, 33 / 100, 33 / 100]"
  by code_simp

section \<open>Properties of the sessions and the final calculation\<close>

lemma get_session_Some: "S chat_id = Some s \<Longrightarrow> get_session S chat_id = (S, s)"
  by (simp add: get_session_def)

lemma get_session_None:
  "S chat_id = None \<Longrightarrow> get_session S chat_id = (S(chat_id \<mapsto> fresh_session), fresh_session)"
  by (simp add: get_session_def)


lemma send_and_track_Some:
  "S chat_id = Some s \<Longrightarrow>
   send_and_track S chat_id mid = S(chat_id \<mapsto> s\<lparr>messages := messages s @ [mid]\<rparr>)"
  by (simp add: send_and_track_def get_session_Some)

lemma delete_setup_messages_Some:
  "S chat_id = Some s \<Longrightarrow>
   delete_setup_messages S chat_id keep_ids =
     S(chat_id \<mapsto> s\<lparr>messages := filter (\<lambda>m. m \<in> set keep_ids) (messages s)\<rparr>)"
  by (simp add: delete_setup_messages_def get_session_Some)

lemma raw_shares_Inr:
  "raw_shares t extra items =
     Inr (map (\<lambda>(n, sub). sub + (if 0 < t then sub / t * extra else 0)) items)"
  by (induction items) (auto simp: truediv_def)

lemma close_enough_iff: "close_enough a b \<longleftrightarrow> \<bar>b - a\<bar> \<le> 1 / 100"
  by (simp add: close_enough_def close_enough_tol_def abs_minus_commute)

lemma calculate_mismatch:
  assumes "S chat_id = Some s" and "people s \<noteq> []"
    and "\<not> close_enough (sum_list (map snd (people s))) (total s)"
  shows "calculate S chat_id mid =
     (S(chat_id \<mapsto> s\<lparr>messages := messages s @ [mid]\<rparr>),
      Mismatch (total s) (sum_list (map snd (people s)))
        (total s - sum_list (map snd (people s)))
        (if 0 < total s - sum_list (map snd (people s)) then ''more'' else ''less''))"
  using assms by (simp add: calculate_def Let_def send_and_track_Some)

lemma calculate_balanced:
  assumes "S chat_id = Some s" and "people s \<noteq> []"
    and "close_enough (sum_list (map snd (people s))) (total s)"
  shows "calculate S chat_id mid =
     (S(chat_id \<mapsto> s\<lparr>finalized_msg_id := Some mid,
                       messages := filter (\<lambda>m. m \<in> set [mid]) (messages s)\<rparr>),
      CustomBreakdown (total s) (total s * gst s / 100) (total s * service s / 100)
        (total s + total s * gst s / 100 + total s * service s / 100)
        (zip (map fst (people s))
           (allocate_cents
              (map (\<lambda>(n, sub). sub + (if 0 < total s
                      then sub / total s * (total s * gst s / 100 + total s * service s / 100)
                      else 0)) (people s))
              (total s + total s * gst s / 100 + total s * service s / 100))))"
  using assms
  by (simp add: calculate_def Let_def raw_shares_Inr delete_setup_messages_Some)

lemma calculate_equal:
  assumes "S chat_id = Some s" and "people s = []" and "0 < num_people s"
  shows "calculate S chat_id mid =
     (S(chat_id \<mapsto> s\<lparr>finalized_msg_id := Some mid,
                       messages := filter (\<lambda>m. m \<in> set [mid]) (messages s)\<rparr>),
      EqualBreakdown (total s) (total s * gst s / 100) (total s * service s / 100)
        (total s + total s * gst s / 100 + total s * service s / 100)
        ((total s + total s * gst s / 100 + total s * service s / 100)
           / of_int (num_people s)))"
  using assms
  by (simp add: calculate_def Let_def truediv_def delete_setup_messages_Some)

lemma calculate_no_people:
  assumes "S chat_id = Some s" and "people s = []" and "num_people s \<le> 0"
  shows "calculate S chat_id mid =
     (S(chat_id \<mapsto> s\<lparr>messages := messages s @ [mid]\<rparr>), NoPeopleYet)"
  using assms by (simp add: calculate_def Let_def send_and_track_Some)

lemma calculate_no_session:
  "S chat_id = None \<Longrightarrow> calculate S chat_id mid = (S, NoActiveBill)"
  by (simp add: calculate_def)

lemma calculate_cases:
  obtains (none) "S chat_id = None"
  | (nopeople) s where "S chat_id = Some s" "people s = []" "num_people s \<le> 0"
  | (equal) s where "S chat_id = Some s" "people s = []" "0 < num_people s"
  | (mismatch) s where "S chat_id = Some s" "people s \<noteq> []"
      "\<not> close_enough (sum_list (map snd (people s))) (total s)"
  | (balanced) s where "S chat_id = Some s" "people s \<noteq> []"
      "close_enough (sum_list (map snd (people s))) (total s)"
  by (cases "S chat_id") (auto, force)

lemma calculate_not_raised: "snd (calculate S chat_id mid) \<noteq> Raised e"
  by (cases S chat_id rule: calculate_cases)
     (simp_all add: calculate_no_session calculate_no_people calculate_equal
        calculate_mismatch calculate_balanced)

lemma calculate_equal_only_if:
  assumes "snd (calculate S chat_id mid) = EqualBreakdown t g sv gr per"
  shows "\<exists>s. S chat_id = Some s \<and> people s = [] \<and> 0 < num_people s
          \<and> per = gr / of_int (num_people s)"
  using assms
  by (cases S chat_id rule: calculate_cases)
     (auto simp add: calculate_no_session calculate_no_people calculate_equal
        calculate_mismatch calculate_balanced)



text \<open>
  C5. With entries present and balanced, \<^verbatim>\<open>calculate\<close> gives the allocator the raw
  shares \<open>sub + (sub / total) * (gst_amt + svc_amt)\<close> (\<open>sub\<close> alone when the total is not
  positive), in the order of the entries, together with
  \<open>grand = total + gst_amt + svc_amt\<close>. The breakdown pairs the names, in that same
  order, with the allocator's amounts, and the entries of the session are kept.
\<close>

theorem calculate_itemized_shares:
  assumes "S chat_id = Some s" and "people s \<noteq> []"
    and "close_enough (sum_list (map snd (people s))) (total s)"
    and "gst_amt = total s * gst s / 100"
    and "svc_amt = total s * service s / 100"
    and "grand = total s + gst_amt + svc_amt"
    and "final_shares =
           allocate_cents
             (map (\<lambda>(n, sub). if 0 < total s
                               then sub + sub / total s * (gst_amt + svc_amt)
                               else sub) (people s))
             grand"
  shows "calculate S chat_id mid =
           (S(chat_id \<mapsto> s\<lparr>finalized_msg_id := Some mid,
                             messages := filter (\<lambda>m. m \<in> set [mid]) (messages s)\<rparr>),
            CustomBreakdown (total s) gst_amt svc_amt grand
              (zip (map fst (people s)) final_shares))
    \<and> map fst (zip (map fst (people s)) final_shares) = map fst (people s)
    \<and> map snd (zip (map fst (people s)) final_shares) = final_shares
    \<and> people (s\<lparr>finalized_msg_id := Some mid,
                  messages := filter (\<lambda>m. m \<in> set [mid]) (messages s)\<rparr>) = people s"
proof -
  note vars = assms(7) assms(6) assms(4) assms(5)
  have raw:
    "(\<lambda>(n, sub). sub + (if 0 < total s
          then sub / total s * (total s * gst s / 100 + total s * service s / 100)
          else 0)) =
     (\<lambda>(n::string, sub). if 0 < total s
          then sub + sub / total s * (total s * gst s / 100 + total s * service s / 100)
          else sub)"
    by (auto simp: fun_eq_iff)
  have len: "length final_shares = length (map fst (people s))"
    using assms(7) by (simp add: length_allocate_cents)
  have "calculate S chat_id mid =
           (S(chat_id \<mapsto> s\<lparr>finalized_msg_id := Some mid,
                             messages := filter (\<lambda>m. m \<in> set [mid]) (messages s)\<rparr>),
            CustomBreakdown (total s) gst_amt svc_amt grand
              (zip (map fst (people s)) final_shares))"
    unfolding vars
    using calculate_balanced [of S chat_id s mid, OF assms(1-3)]
    by (simp only: raw)
  moreover have "map fst (zip (map fst (people s)) final_shares) = map fst (people s)"
    using len by (simp only: map_fst_zip)
  moreover have "map snd (zip (map fst (people s)) final_shares) = final_shares"
    using len by (simp only: map_snd_zip)
  ultimately show ?thesis
    by simp
qed

text \<open>The scenario of the specification: 100 with 9% and 10%, Alice 60 and Bob 40.\<close>

theorem calculate_itemized_shares_witness:
  "calculate
     [1 \<mapsto> fresh_session\<lparr>total := 100, gst := 9, service := 10,
                             people := [(''Alice'', 60), (''Bob'', 40)], messages := [3, 4]\<rparr>] 1 7 =
     ([1 \<mapsto> fresh_session\<lparr>total := 100, gst := 9, service := 10,
                             people := [(''Alice'', 60), (''Bob'', 40)], messages := [],
                             finalized_msg_id := Some 7\<rparr>],
      CustomBreakdown 100 9 10 119 [(''Alice'', 714 / 10), (''Bob'', 476 / 10)])"
proof -
  have alloc: "allocate_cents [357 / 5, 238 / 5] 119 = [357 / 5, 238 / 5]"
    by code_simp
  show ?thesis
    using calculate_itemized_shares
      [of "[1 \<mapsto> fresh_session\<lparr>total := 100, gst := 9, service := 10,
                             people := [(''Alice'', 60), (''Bob'', 40)], messages := [3, 4]\<rparr>]"
          1 "fresh_session\<lparr>total := 100, gst := 9, service := 10,
                             people := [(''Alice'', 60), (''Bob'', 40)], messages := [3, 4]\<rparr>"
          9 10 119 "[714 / 10, 476 / 10]" 7]
    by (simp add: fresh_session_def close_enough_iff alloc)
qed

text \<open>
  C9. With no entries and a positive \<^verbatim>\<open>num_people\<close>, \<^verbatim>\<open>calculate\<close> reports
  \<open>gst_amt = total * gst / 100\<close>, \<open>svc_amt = total * service / 100\<close>,
  \<open>grand = total + gst_amt + svc_amt\<close> and the one value \<open>grand / num_people\<close>; the
  allocator is not used.
\<close>

theorem calculate_equal_split:
  assumes "S chat_id = Some s" and "people s = []" and "0 < num_people s"
    and "gst_amt = total s * gst s / 100"
    and "svc_amt = total s * service s / 100"
    and "grand = total s + gst_amt + svc_amt"
  shows "calculate S chat_id mid =
           (S(chat_id \<mapsto> s\<lparr>finalized_msg_id := Some mid,
                             messages := filter (\<lambda>m. m \<in> set [mid]) (messages s)\<rparr>),
            EqualBreakdown (total s) gst_amt svc_amt grand (grand / of_int (num_people s)))"
  unfolding assms(6) assms(4) assms(5)
  by (rule calculate_equal [of S chat_id s mid, OF assms(1-3)])

text \<open>The example of the specification: 50 with 10% service among four is 13.75 each.\<close>

theorem calculate_equal_split_witness:
  "calculate [1 \<mapsto> fresh_session\<lparr>total := 50, gst := 0, service := 10, num_people := 4\<rparr>] 1 7 =
     ([1 \<mapsto> fresh_session\<lparr>total := 50, gst := 0, service := 10, num_people := 4,
                             finalized_msg_id := Some 7\<rparr>],
      EqualBreakdown 50 0 5 55 (1375 / 100))"
  using calculate_equal_split
    [of "[1 \<mapsto> fresh_session\<lparr>total := 50, gst := 0, service := 10, num_people := 4\<rparr>]"
        1 "fresh_session\<lparr>total := 50, gst := 0, service := 10, num_people := 4\<rparr>" 0 5 55 7]
  by (simp add: fresh_session_def)

text \<open>
  C10. \<^verbatim>\<open>calculate\<close> never raises \<^verbatim>\<open>ZeroDivisionError\<close>. With no entries and a
  \<^verbatim>\<open>num_people\<close> that is not positive (it is 0 in a new session) it answers that there
  are no people yet and only tracks that message; an equal-split breakdown is given
  only when \<^verbatim>\<open>num_people\<close> is positive.
\<close>

theorem calculate_never_divides_by_zero:
  "snd (calculate S chat_id mid) \<noteq> Raised ZeroDivisionError
   \<and> (S chat_id = Some s \<and> people s = [] \<and> num_people s \<le> 0 \<longrightarrow>
        calculate S chat_id mid =
          (S(chat_id \<mapsto> s\<lparr>messages := messages s @ [mid]\<rparr>), NoPeopleYet))
   \<and> (snd (calculate S chat_id mid) = EqualBreakdown t g sv gr per \<longrightarrow>
        (\<exists>s'. S chat_id = Some s' \<and> people s' = [] \<and> 0 < num_people s'
              \<and> per = gr / of_int (num_people s')))"
  using calculate_not_raised [of S chat_id mid ZeroDivisionError]
    calculate_no_people [of S chat_id s mid]
    calculate_equal_only_if [of S chat_id mid t g sv gr per]
  by blast

text \<open>A session as \<^verbatim>\<open>start\<close> leaves it: the count is 0 and the calculation is refused.\<close>

theorem calculate_never_divides_by_zero_witness:
  "num_people fresh_session = 0
   \<and> start Map.empty 1 5 = ([1 \<mapsto> fresh_session\<lparr>messages := [5]\<rparr>], MENU)
   \<and> calculate [1 \<mapsto> fresh_session\<lparr>messages := [5]\<rparr>] 1 7 =
       ([1 \<mapsto> fresh_session\<lparr>messages := [5, 7]\<rparr>], NoPeopleYet)"
  using calculate_never_divides_by_zero
    [of "[1 \<mapsto> fresh_session\<lparr>messages := [5]\<rparr>]" 1 7 "fresh_session\<lparr>messages := [5]\<rparr>"]
  by (simp add: fresh_session_def start_def get_session_def send_and_track_def)

section \<open>Properties of the mismatch resolutions\<close>







text \<open>
  C7. \<^verbatim>\<open>TOTAL_TO_SUM\<close> overwrites the total with the sum of the entries and leaves
  the entries alone; the session is then balanced, and a \<^verbatim>\<open>calculate\<close> that follows
  does not report a mismatch.
\<close>

theorem total_to_sum_balances:
  assumes "get_session S chat_id = (S1, s)"
    and "sum_custom = sum_list (map snd (people s))"
  shows "mismatch_fix_cb S chat_id ''TOTAL_TO_SUM'' =
           (S1(chat_id \<mapsto> s\<lparr>total := sum_custom\<rparr>), TotalToSum sum_custom)
    \<and> people (s\<lparr>total := sum_custom\<rparr>) = people s
    \<and> close_enough (sum_list (map snd (people (s\<lparr>total := sum_custom\<rparr>))))
         (total (s\<lparr>total := sum_custom\<rparr>))
    \<and> (\<forall>t sm d sg. snd (calculate (S1(chat_id \<mapsto> s\<lparr>total := sum_custom\<rparr>)) chat_id mid)
          \<noteq> Mismatch t sm d sg)"
proof -
  let ?s' = "s\<lparr>total := sum_custom\<rparr>"
  let ?S' = "S1(chat_id \<mapsto> ?s')"
  have adopted: "mismatch_fix_cb S chat_id ''TOTAL_TO_SUM'' = (?S', TotalToSum sum_custom)"
    using assms by (simp add: mismatch_fix_cb_def Let_def)
  have bal: "close_enough (sum_list (map snd (people ?s'))) (total ?s')"
    using assms(2) by (simp add: close_enough_iff)
  have look: "?S' chat_id = Some ?s'"
    by simp
  have "snd (calculate ?S' chat_id mid) \<noteq> Mismatch t sm d sg" for t sm d sg
  proof (cases "people ?s' = []")
    case True
    show ?thesis
    proof (cases "num_people ?s' \<le> 0")
      case True
      with \<open>people ?s' = []\<close> calculate_no_people [of ?S' chat_id ?s' mid, OF look]
      show ?thesis by simp
    next
      case False
      with \<open>people ?s' = []\<close> calculate_equal [of ?S' chat_id ?s' mid, OF look]
      show ?thesis by simp
    qed
  next
    case False
    with calculate_balanced [of ?S' chat_id ?s' mid, OF look _ bal]
    show ?thesis by simp
  qed
  with adopted bal show ?thesis
    by simp
qed

text \<open>The example of the specification: total 100, entries summing to 90, total becomes 90.\<close>

theorem total_to_sum_balances_witness:
  "mismatch_fix_cb
     [1 \<mapsto> fresh_session\<lparr>total := 100, people := [(''Alice'', 50), (''Bob'', 40)]\<rparr>] 1
     ''TOTAL_TO_SUM'' =
     ([1 \<mapsto> fresh_session\<lparr>total := 90, people := [(''Alice'', 50), (''Bob'', 40)]\<rparr>],
      TotalToSum 90)
   \<and> close_enough 90 90"
  using total_to_sum_balances
    [of "[1 \<mapsto> fresh_session\<lparr>total := 100, people := [(''Alice'', 50), (''Bob'', 40)]\<rparr>]" 1
        "[1 \<mapsto> fresh_session\<lparr>total := 100, people := [(''Alice'', 50), (''Bob'', 40)]\<rparr>]"
        "fresh_session\<lparr>total := 100, people := [(''Alice'', 50), (''Bob'', 40)]\<rparr>" 90 7]
  by (simp add: fresh_session_def get_session_def)

section \<open>Properties of the commands and of the setup dialogue\<close>

lemma map_of_update_same: "map_of (AList.update k v al) k = Some v"
  by (simp add: update_conv')

text \<open>
  C8. For a session and a name, with an amount that is not negative: \<^verbatim>\<open>addamount\<close>
  stores the amount added to the subtotal the name has (to 0 when the name is new);
  \<^verbatim>\<open>editamount\<close> stores the amount itself when the name is present, and when it is
  absent it answers that the name is not in the list and leaves the entries alone.
\<close>

theorem addamount_adds_editamount_overwrites:
  assumes "S chat_id = Some s" and "float_of a = Some amount" and "0 \<le> amount"
    and "prev = (case map_of (people s) name of None \<Rightarrow> 0 | Some v \<Rightarrow> v)"
  shows "addamount float_of S chat_id [name, a] mid =
           (S(chat_id \<mapsto> s\<lparr>people := AList.update name (prev + amount) (people s),
                             messages := messages s @ [mid]\<rparr>),
            Added name amount (prev + amount))
    \<and> map_of (AList.update name (prev + amount) (people s)) name = Some (prev + amount)
    \<and> (map_of (people s) name \<noteq> None \<longrightarrow>
          editamount float_of S chat_id [name, a] mid =
            (S(chat_id \<mapsto> s\<lparr>people := AList.update name amount (people s),
                              messages := messages s @ [mid]\<rparr>),
             Updated name amount)
          \<and> map_of (AList.update name amount (people s)) name = Some amount)
    \<and> (map_of (people s) name = None \<longrightarrow>
          editamount float_of S chat_id [name, a] mid =
            (S(chat_id \<mapsto> s\<lparr>messages := messages s @ [mid]\<rparr>), NotInList name))"
proof -
  have add: "addamount float_of S chat_id [name, a] mid =
           (S(chat_id \<mapsto> s\<lparr>people := AList.update name (prev + amount) (people s),
                             messages := messages s @ [mid]\<rparr>),
            Added name amount (prev + amount))"
    using assms by (simp add: addamount_def Let_def send_and_track_Some)
  have edit: "editamount float_of S chat_id [name, a] mid =
            (S(chat_id \<mapsto> s\<lparr>people := AList.update name amount (people s),
                              messages := messages s @ [mid]\<rparr>),
             Updated name amount)"
    if "map_of (people s) name \<noteq> None"
    using that assms by (simp add: editamount_def Let_def send_and_track_Some)
  have absent: "editamount float_of S chat_id [name, a] mid =
            (S(chat_id \<mapsto> s\<lparr>messages := messages s @ [mid]\<rparr>), NotInList name)"
    if "map_of (people s) name = None"
    using that assms by (simp add: editamount_def Let_def send_and_track_Some)
  from add edit absent show ?thesis
    by (simp add: map_of_update_same)
qed

text \<open>
  The example of the specification: Alice 10, then Alice 5, gives 15; editing Alice to 5
  gives 5. Editing Bob, who is not there, fails.
\<close>

theorem addamount_adds_editamount_overwrites_witness:
  "addamount (map_of [(''10'', 10), (''5'', 5)]) [1 \<mapsto> fresh_session] 1 [''Alice'', ''10''] 2 =
     ([1 \<mapsto> fresh_session\<lparr>people := [(''Alice'', 10)], messages := [2]\<rparr>], Added ''Alice'' 10 10)
   \<and> addamount (map_of [(''10'', 10), (''5'', 5)])
       [1 \<mapsto> fresh_session\<lparr>people := [(''Alice'', 10)], messages := [2]\<rparr>] 1 [''Alice'', ''5''] 3 =
     ([1 \<mapsto> fresh_session\<lparr>people := [(''Alice'', 15)], messages := [2, 3]\<rparr>],
      Added ''Alice'' 5 15)
   \<and> editamount (map_of [(''10'', 10), (''5'', 5)])
       [1 \<mapsto> fresh_session\<lparr>people := [(''Alice'', 15)], messages := [2, 3]\<rparr>] 1 [''Alice'', ''5''] 4 =
     ([1 \<mapsto> fresh_session\<lparr>people := [(''Alice'', 5)], messages := [2, 3, 4]\<rparr>],
      Updated ''Alice'' 5)
   \<and> editamount (map_of [(''10'', 10), (''5'', 5)]) [1 \<mapsto> fresh_session] 1 [''Bob'', ''5''] 4 =
     ([1 \<mapsto> fresh_session\<lparr>messages := [4]\<rparr>], NotInList ''Bob'')"
  using addamount_adds_editamount_overwrites
    [of "[1 \<mapsto> fresh_session]" 1 fresh_session
        "map_of [(''10'', 10), (''5'', 5)]" "''10''" 10 0 "''Alice''" 2]
    addamount_adds_editamount_overwrites
    [of "[1 \<mapsto> fresh_session\<lparr>people := [(''Alice'', 10)], messages := [2]\<rparr>]" 1
        "fresh_session\<lparr>people := [(''Alice'', 10)], messages := [2]\<rparr>"
        "map_of [(''10'', 10), (''5'', 5)]" "''5''" 5 10 "''Alice''" 3]
    addamount_adds_editamount_overwrites
    [of "[1 \<mapsto> fresh_session\<lparr>people := [(''Alice'', 15)], messages := [2, 3]\<rparr>]" 1
        "fresh_session\<lparr>people := [(''Alice'', 15)], messages := [2, 3]\<rparr>"
        "map_of [(''10'', 10), (''5'', 5)]" "''5''" 5 15 "''Alice''" 4]
    addamount_adds_editamount_overwrites
    [of "[1 \<mapsto> fresh_session]" 1 fresh_session
        "map_of [(''10'', 10), (''5'', 5)]" "''5''" 5 0 "''Bob''" 4]
  by (simp add: fresh_session_def)

lemma set_total_unparsed:
  "S chat_id = Some s \<Longrightarrow> float_of text = None \<Longrightarrow>
   set_total float_of S chat_id text mid =
     (S(chat_id \<mapsto> s\<lparr>messages := messages s @ [mid]\<rparr>), TOTAL)"
  by (simp add: set_total_def get_session_Some send_and_track_Some)

lemma set_gst_unparsed:
  "S chat_id = Some s \<Longrightarrow> float_of text = None \<Longrightarrow>
   set_gst float_of S chat_id text mid =
     (S(chat_id \<mapsto> s\<lparr>messages := messages s @ [mid]\<rparr>), GST)"
  by (simp add: set_gst_def get_session_Some send_and_track_Some)

lemma set_service_unparsed:
  "S chat_id = Some s \<Longrightarrow> float_of text = None \<Longrightarrow>
   set_service float_of S chat_id text mid =
     (S(chat_id \<mapsto> s\<lparr>messages := messages s @ [mid]\<rparr>), SERVICE)"
  by (simp add: set_service_def get_session_Some send_and_track_Some)

lemma set_num_people_invalid:
  "S chat_id = Some s \<Longrightarrow> int_of text = None \<or> (\<exists>n. int_of text = Some n \<and> n \<le> 0) \<Longrightarrow>
   set_num_people int_of S chat_id text mid =
     (S(chat_id \<mapsto> s\<lparr>messages := messages s @ [mid]\<rparr>), NUM_PEOPLE)"
  by (auto simp: set_num_people_def get_session_Some send_and_track_Some)

lemma addamount_invalid:
  "S chat_id = Some s \<Longrightarrow>
   length args < 2 \<or> float_of (args ! 1) = None \<or> (\<exists>a. float_of (args ! 1) = Some a \<and> a < 0) \<Longrightarrow>
   fst (addamount float_of S chat_id args mid) = S(chat_id \<mapsto> s\<lparr>messages := messages s @ [mid]\<rparr>)
   \<and> snd (addamount float_of S chat_id args mid) \<in> {Usage, InvalidAmount}"
  by (auto simp: addamount_def Let_def send_and_track_Some)

lemma editamount_invalid:
  "S chat_id = Some s \<Longrightarrow>
   length args < 2 \<or> float_of (args ! 1) = None \<or> (\<exists>a. float_of (args ! 1) = Some a \<and> a < 0)
     \<or> map_of (people s) (args ! 0) = None \<Longrightarrow>
   fst (editamount float_of S chat_id args mid) = S(chat_id \<mapsto> s\<lparr>messages := messages s @ [mid]\<rparr>)
   \<and> snd (editamount float_of S chat_id args mid) \<in> {Usage, InvalidAmount, NotInList (args ! 0)}"
  by (auto simp: editamount_def Let_def send_and_track_Some split: option.splits)

lemma remove_person_invalid:
  "S chat_id = Some s \<Longrightarrow> length args < 1 \<or> map_of (people s) (args ! 0) = None \<Longrightarrow>
   fst (remove_person S chat_id args mid) = S(chat_id \<mapsto> s\<lparr>messages := messages s @ [mid]\<rparr>)
   \<and> snd (remove_person S chat_id args mid) \<in> {Usage, NotFound (args ! 0)}"
  by (auto simp: remove_person_def Let_def send_and_track_Some)

lemma settotal_invalid:
  "S chat_id = Some s \<Longrightarrow>
   length args < 1 \<or> float_of (args ! 0) = None \<or> (\<exists>a. float_of (args ! 0) = Some a \<and> a < 0) \<Longrightarrow>
   fst (settotal float_of S chat_id args mid) = S(chat_id \<mapsto> s\<lparr>messages := messages s @ [mid]\<rparr>)
   \<and> snd (settotal float_of S chat_id args mid) \<in> {Usage, InvalidAmount}"
  by (auto simp: settotal_def Let_def send_and_track_Some)

lemma commands_without_session:
  "N chat_id = None \<Longrightarrow>
   addamount float_of N chat_id args mid = (N, NoActiveBill)
   \<and> editamount float_of N chat_id args mid = (N, NoActiveBill)
   \<and> remove_person N chat_id args mid = (N, NoActiveBill)
   \<and> settotal float_of N chat_id args mid = (N, NoActiveBill)
   \<and> calculate N chat_id mid = (N, NoActiveBill)"
  by (simp add: addamount_def editamount_def remove_person_def settotal_def calculate_def)

text \<open>
  A negative number at the three prompts: the handler has stored it in the session when
  it rejects it, and the state stays. The command \<^verbatim>\<open>/settotal\<close> tests the number
  before it stores it.
\<close>

lemma set_total_negative:
  "S chat_id = Some s \<Longrightarrow> float_of text = Some v \<Longrightarrow> v < 0 \<Longrightarrow>
   set_total float_of S chat_id text mid =
     (S(chat_id \<mapsto> s\<lparr>total := v, messages := messages s @ [mid]\<rparr>), TOTAL)"
  by (simp add: set_total_def get_session_Some send_and_track_def get_session_def)

lemma set_gst_negative:
  "S chat_id = Some s \<Longrightarrow> float_of text = Some v \<Longrightarrow> v < 0 \<Longrightarrow>
   set_gst float_of S chat_id text mid =
     (S(chat_id \<mapsto> s\<lparr>gst := v, messages := messages s @ [mid]\<rparr>), GST)"
  by (simp add: set_gst_def get_session_Some send_and_track_def get_session_def)

lemma set_service_negative:
  "S chat_id = Some s \<Longrightarrow> float_of text = Some v \<Longrightarrow> v < 0 \<Longrightarrow>
   set_service float_of S chat_id text mid =
     (S(chat_id \<mapsto> s\<lparr>service := v, messages := messages s @ [mid]\<rparr>), SERVICE)"
  by (simp add: set_service_def get_session_Some send_and_track_def get_session_def)

lemma settotal_negative_keeps_total:
  "S chat_id = Some s \<Longrightarrow> float_of a = Some v \<Longrightarrow> v < 0 \<Longrightarrow>
   settotal float_of S chat_id [a] mid =
     (S(chat_id \<mapsto> s\<lparr>messages := messages s @ [mid]\<rparr>), InvalidAmount)"
  by (simp add: settotal_def send_and_track_Some)

text \<open>
  C3, as the claim states it, fails. A failed \<^verbatim>\<open>/addamount\<close> (a negative amount) leaves
  a session that differs from the one before: the id of the error message has been
  appended to its tracked messages. And a negative total typed at the prompt is
  rejected, the state staying \<open>TOTAL\<close>, after it has been written to the session.
\<close>

theorem failed_input_changes_session:
  "addamount (map_of [(''-5'', - 5)]) [1 \<mapsto> fresh_session] 1 [''Alice'', ''-5''] 7 =
     ([1 \<mapsto> fresh_session\<lparr>messages := [7]\<rparr>], InvalidAmount)
   \<and> fresh_session\<lparr>messages := [7]\<rparr> \<noteq> fresh_session
   \<and> set_total (map_of [(''-5'', - 5)]) [1 \<mapsto> fresh_session] 1 ''-5'' 7 =
     ([1 \<mapsto> fresh_session\<lparr>total := - 5, messages := [7]\<rparr>], TOTAL)
   \<and> total (fresh_session\<lparr>total := - 5, messages := [7]\<rparr>) \<noteq> total fresh_session"
  by (simp add: addamount_def set_total_def send_and_track_def get_session_def fresh_session_def)

text \<open>
  C3, amended. When an operation of an active session fails, the store afterwards is the
  store before with the id of the error message appended to the session's tracked
  messages, and nothing else changed; a prompt answers with its own state. The
  failures: input that does not parse as a number at the total, GST and service
  prompts; a count that does not parse or is not positive; for \<^verbatim>\<open>/addamount\<close>,
  \<^verbatim>\<open>/editamount\<close> and \<^verbatim>\<open>/settotal\<close> a missing argument, an amount that does not
  parse or is negative; for \<^verbatim>\<open>/editamount\<close> and \<^verbatim>\<open>/remove\<close> a name that is not
  present. With no active session the commands change nothing at all.
\<close>

theorem failed_input_keeps_bill_data:
  assumes "S chat_id = Some s" and "N chat_id = None"
    and "tracked = S(chat_id \<mapsto> s\<lparr>messages := messages s @ [mid]\<rparr>)"
  shows
    "(float_of text = None \<longrightarrow>
        set_total float_of S chat_id text mid = (tracked, TOTAL)
        \<and> set_gst float_of S chat_id text mid = (tracked, GST)
        \<and> set_service float_of S chat_id text mid = (tracked, SERVICE))
     \<and> (int_of text = None \<or> (\<exists>n. int_of text = Some n \<and> n \<le> 0) \<longrightarrow>
        set_num_people int_of S chat_id text mid = (tracked, NUM_PEOPLE))
     \<and> (length args < 2 \<or> float_of (args ! 1) = None
          \<or> (\<exists>a. float_of (args ! 1) = Some a \<and> a < 0) \<longrightarrow>
        fst (addamount float_of S chat_id args mid) = tracked
        \<and> snd (addamount float_of S chat_id args mid) \<in> {Usage, InvalidAmount})
     \<and> (length args < 2 \<or> float_of (args ! 1) = None
          \<or> (\<exists>a. float_of (args ! 1) = Some a \<and> a < 0)
          \<or> map_of (people s) (args ! 0) = None \<longrightarrow>
        fst (editamount float_of S chat_id args mid) = tracked
        \<and> snd (editamount float_of S chat_id args mid)
              \<in> {Usage, InvalidAmount, NotInList (args ! 0)})
     \<and> (length args < 1 \<or> map_of (people s) (args ! 0) = None \<longrightarrow>
        fst (remove_person S chat_id args mid) = tracked
        \<and> snd (remove_person S chat_id args mid) \<in> {Usage, NotFound (args ! 0)})
     \<and> (length args < 1 \<or> float_of (args ! 0) = None
          \<or> (\<exists>a. float_of (args ! 0) = Some a \<and> a < 0) \<longrightarrow>
        fst (settotal float_of S chat_id args mid) = tracked
        \<and> snd (settotal float_of S chat_id args mid) \<in> {Usage, InvalidAmount})
     \<and> addamount float_of N chat_id args mid = (N, NoActiveBill)
     \<and> editamount float_of N chat_id args mid = (N, NoActiveBill)
     \<and> remove_person N chat_id args mid = (N, NoActiveBill)
     \<and> settotal float_of N chat_id args mid = (N, NoActiveBill)
     \<and> calculate N chat_id mid = (N, NoActiveBill)"
proof -
  note s = assms(1)
  have prompts: "set_total float_of S chat_id text mid = (tracked, TOTAL)
      \<and> set_gst float_of S chat_id text mid = (tracked, GST)
      \<and> set_service float_of S chat_id text mid = (tracked, SERVICE)"
    if "float_of text = None"
    unfolding assms(3)
    using set_total_unparsed [of S chat_id s float_of "text" mid]
      set_gst_unparsed [of S chat_id s float_of "text" mid]
      set_service_unparsed [of S chat_id s float_of "text" mid] s that
    by simp
  have count: "set_num_people int_of S chat_id text mid = (tracked, NUM_PEOPLE)"
    if "int_of text = None \<or> (\<exists>n. int_of text = Some n \<and> n \<le> 0)"
    unfolding assms(3) using s that by (rule set_num_people_invalid)
  have add: "fst (addamount float_of S chat_id args mid) = tracked
      \<and> snd (addamount float_of S chat_id args mid) \<in> {Usage, InvalidAmount}"
    if "length args < 2 \<or> float_of (args ! 1) = None
          \<or> (\<exists>a. float_of (args ! 1) = Some a \<and> a < 0)"
    unfolding assms(3) using s that by (rule addamount_invalid)
  have edit: "fst (editamount float_of S chat_id args mid) = tracked
      \<and> snd (editamount float_of S chat_id args mid)
            \<in> {Usage, InvalidAmount, NotInList (args ! 0)}"
    if "length args < 2 \<or> float_of (args ! 1) = None
          \<or> (\<exists>a. float_of (args ! 1) = Some a \<and> a < 0)
          \<or> map_of (people s) (args ! 0) = None"
    unfolding assms(3) using s that by (rule editamount_invalid)
  have remove: "fst (remove_person S chat_id args mid) = tracked
      \<and> snd (remove_person S chat_id args mid) \<in> {Usage, NotFound (args ! 0)}"
    if "length args < 1 \<or> map_of (people s) (args ! 0) = None"
    unfolding assms(3) using s that by (rule remove_person_invalid)
  have settot: "fst (settotal float_of S chat_id args mid) = tracked
      \<and> snd (settotal float_of S chat_id args mid) \<in> {Usage, InvalidAmount}"
    if "length args < 1 \<or> float_of (args ! 0) = None
          \<or> (\<exists>a. float_of (args ! 0) = Some a \<and> a < 0)"
    unfolding assms(3) using s that by (rule settotal_invalid)
  note none = commands_without_session [of N chat_id float_of args mid, OF assms(2)]
  from prompts count add edit remove settot none show ?thesis
    by blast
qed

text \<open>Failed inputs on a new session, and a command on a chat with no session.\<close>

theorem failed_input_keeps_bill_data_witness:
  "set_total (map_of [(''-5'', - 5)]) [1 \<mapsto> fresh_session] 1 ''abc'' 7 =
     ([1 \<mapsto> fresh_session\<lparr>messages := [7]\<rparr>], TOTAL)
   \<and> set_num_people (map_of [(''0'', 0)]) [1 \<mapsto> fresh_session] 1 ''0'' 7 =
     ([1 \<mapsto> fresh_session\<lparr>messages := [7]\<rparr>], NUM_PEOPLE)
   \<and> fst (addamount (map_of [(''-5'', - 5)]) [1 \<mapsto> fresh_session] 1 [''Alice'', ''-5''] 7) =
     [1 \<mapsto> fresh_session\<lparr>messages := [7]\<rparr>]
   \<and> fst (settotal (map_of [(''-5'', - 5)]) [1 \<mapsto> fresh_session] 1 [''-5''] 7) =
     [1 \<mapsto> fresh_session\<lparr>messages := [7]\<rparr>]
   \<and> fst (remove_person [1 \<mapsto> fresh_session] 1 [''Bob''] 7) =
     [1 \<mapsto> fresh_session\<lparr>messages := [7]\<rparr>]
   \<and> addamount (map_of [(''-5'', - 5)]) Map.empty 1 [''Alice'', ''-5''] 7 =
     (Map.empty, NoActiveBill)"
proof -
  let ?S = "[1 \<mapsto> fresh_session]"
  let ?T = "[1 \<mapsto> fresh_session\<lparr>messages := [7]\<rparr>]"
  let ?f = "map_of [(''-5'', - 5 :: real)]"
  let ?i = "map_of [(''0'', 0 :: int)]"
  have present: "?S 1 = Some fresh_session" and absent: "Map.empty (1::int) = (None :: session option)"
    and tracked: "?T = ?S(1 \<mapsto> fresh_session\<lparr>messages := messages fresh_session @ [7]\<rparr>)"
    by (simp_all add: fresh_session_def)
  note at = failed_input_keeps_bill_data [where S = ?S and chat_id = 1 and N = Map.empty
      and float_of = ?f and int_of = ?i, OF present absent tracked]
  have "set_total ?f ?S 1 ''abc'' 7 = (?T, TOTAL)"
    using at [of "''abc''" "[]"] by simp
  moreover have "set_num_people ?i ?S 1 ''0'' 7 = (?T, NUM_PEOPLE)"
    using at [of "''0''" "[]"] by simp
  moreover have "fst (addamount ?f ?S 1 [''Alice'', ''-5''] 7) = ?T"
    using at [of "''0''" "[''Alice'', ''-5'']"] by simp
  moreover have "fst (settotal ?f ?S 1 [''-5''] 7) = ?T"
    using at [of "''0''" "[''-5'']"] by simp
  moreover have "fst (remove_person ?S 1 [''Bob''] 7) = ?T"
    using at [of "''0''" "[''Bob'']"] by (simp add: fresh_session_def)
  moreover have "addamount ?f Map.empty 1 [''Alice'', ''-5''] 7 = (Map.empty, NoActiveBill)"
    using at [of "''0''" "[''Alice'', ''-5'']"] by simp
  ultimately show ?thesis
    by simp
qed

text \<open>
  The allocator's gap can be reached through \<^verbatim>\<open>calculate\<close>: a total of 100 with 100%
  GST and the one entry 100.0078125 is balanced (within 0.01), the grand total is 200
  and the one share is 200.01.
\<close>

lemma calculate_breakdown_misses_grand_total:
  "calculate
     [1 \<mapsto> fresh_session\<lparr>total := 100, gst := 100, people := [(''Alice'', 12801 / 128)]\<rparr>] 1 7 =
     ([1 \<mapsto> fresh_session\<lparr>total := 100, gst := 100, people := [(''Alice'', 12801 / 128)],
                             finalized_msg_id := Some 7\<rparr>],
      CustomBreakdown 100 100 0 200 [(''Alice'', 20001 / 100)])"
proof -
  have alloc: "allocate_cents [12801 / 64] 200 = [20001 / 100]"
    by code_simp
  have "close_enough (12801 / 128) 100"
    by (simp add: close_enough_iff)
  then show ?thesis
    using calculate_balanced
      [of "[1 \<mapsto> fresh_session\<lparr>total := 100, gst := 100, people := [(''Alice'', 12801 / 128)]\<rparr>]"
          1 "fresh_session\<lparr>total := 100, gst := 100, people := [(''Alice'', 12801 / 128)]\<rparr>" 7]
    by (simp add: fresh_session_def alloc)
qed

text \<open>The names of the entries stay distinct under the commands that change them.\<close>

lemma addamount_keeps_names_distinct:
  assumes "S chat_id = Some s" and "distinct (map fst (people s))"
    and "fst (addamount float_of S chat_id args mid) chat_id = Some s'"
  shows "distinct (map fst (people s'))"
  using assms
  by (auto simp: addamount_def Let_def send_and_track_Some distinct_update
      split: if_splits option.splits)

lemma editamount_keeps_names_distinct:
  assumes "S chat_id = Some s" and "distinct (map fst (people s))"
    and "fst (editamount float_of S chat_id args mid) chat_id = Some s'"
  shows "distinct (map fst (people s'))"
  using assms
  by (auto simp: editamount_def Let_def send_and_track_Some distinct_update
      split: if_splits option.splits)

lemma remove_person_keeps_names_distinct:
  assumes "S chat_id = Some s" and "distinct (map fst (people s))"
    and "fst (remove_person S chat_id args mid) chat_id = Some s'"
  shows "distinct (map fst (people s'))"
  using assms
  by (auto simp: remove_person_def Let_def send_and_track_Some distinct_delete
      split: if_splits option.splits)

end
